theory Spec2Isabelle
  imports Complex_Main
begin

section \<open>The interval gate of \<^verbatim>\<open>triangula/util.py\<close>\<close>

text \<open>
  \<^verbatim>\<open>IntervalCheck\<close> holds the configured minimum spacing \<^verbatim>\<open>interval\<close> and the time
  of the last permitted run, \<^verbatim>\<open>last_time\<close>, which is \<^verbatim>\<open>None\<close> until the first permit.
  Python's floating-point seconds are read as real numbers: the arithmetic of the
  model is exact, rounding is not part of it. The value returned by \<^verbatim>\<open>time()\<close> is an
  argument \<open>now\<close> of each operation, and the object mutated in place is passed in and
  returned.
\<close>

record IntervalCheck =
  interval :: real
  last_time :: "real option"

text \<open>\<^verbatim>\<open>__init__\<close>: stores the interval, no last run yet.\<close>

definition IntervalCheck_init :: "real \<Rightarrow> IntervalCheck" where
  "IntervalCheck_init interval' = \<lparr>interval = interval', last_time = None\<rparr>"

text \<open>
  \<^verbatim>\<open>should_run\<close>: the \<^verbatim>\<open>or\<close> of the source is evaluated left to right, so the subtraction
  is only reached when \<^verbatim>\<open>last_time\<close> is set. The result is the returned boolean and the
  object after the call.
\<close>

definition should_run :: "real \<Rightarrow> IntervalCheck \<Rightarrow> bool \<times> IntervalCheck" where
  "should_run now g =
     (case last_time g of
        None \<Rightarrow> (True, g\<lparr>last_time := Some now\<rparr>)
      | Some t \<Rightarrow>
          if now - t > interval g then (True, g\<lparr>last_time := Some now\<rparr>)
          else (False, g))"

text \<open>
  \<^verbatim>\<open>time.sleep\<close> of the Python library: it raises on a negative duration and otherwise
  suspends the caller. The suspensions requested so far are kept as a log, oldest first.
\<close>

datatype error = NegativeSleep real

type_synonym sleep_log = "real list"

definition time_sleep :: "real \<Rightarrow> sleep_log \<Rightarrow> error + sleep_log" where
  "time_sleep secs slept = (if secs < 0 then Inl (NegativeSleep secs) else Inr (slept @ [secs]))"

text \<open>
  \<^verbatim>\<open>sleep\<close>: three branches in the source's order. An exception of \<^verbatim>\<open>time_sleep\<close> leaves
  the method before the assignment to \<^verbatim>\<open>last_time\<close>.
\<close>

definition sleep :: "real \<Rightarrow> IntervalCheck \<times> sleep_log \<Rightarrow> error + IntervalCheck \<times> sleep_log" where
  "sleep now s =
     (case s of (g, slept) \<Rightarrow>
        (case last_time g of
           None \<Rightarrow> Inr (g\<lparr>last_time := Some now\<rparr>, slept)
         | Some t \<Rightarrow>
             if now - t > interval g then Inr (g, slept)
             else
               (let remaining_interval = interval g - (now - t)
                in case time_sleep remaining_interval slept of
                     Inl e \<Rightarrow> Inl e
                   | Inr slept' \<Rightarrow> Inr (g\<lparr>last_time := Some (now + remaining_interval)\<rparr>, slept'))))"

text \<open>
  A caller's sequence of calls on one gate: each entry names the method and carries the
  clock reading that call observes. \<open>step\<close> performs one call, \<open>states\<close> lists the state
  before the first call and after every call that returned, and stops at a call that
  raised.
\<close>

datatype call = ShouldRun | Sleep

fun step :: "call \<times> real \<Rightarrow> IntervalCheck \<times> sleep_log \<Rightarrow> error + IntervalCheck \<times> sleep_log" where
  "step (ShouldRun, now) (g, slept) = Inr (snd (should_run now g), slept)"
| "step (Sleep, now) (g, slept) = sleep now (g, slept)"

fun states :: "(call \<times> real) list \<Rightarrow> IntervalCheck \<times> sleep_log \<Rightarrow> (IntervalCheck \<times> sleep_log) list" where
  "states [] s = [s]"
| "states (c # cs) s = s # (case step c s of Inl e \<Rightarrow> [] | Inr s' \<Rightarrow> states cs s')"

text \<open>
  The order in which \<open>last_time\<close> may move: from unset to anything, and from a set value
  only to a set value that is not smaller.
\<close>

fun last_le :: "real option \<Rightarrow> real option \<Rightarrow> bool" where
  "last_le None b = True"
| "last_le (Some t) None = False"
| "last_le (Some t) (Some t') = (t \<le> t')"

text \<open>The answers of successive \<^verbatim>\<open>should_run\<close> calls at the given clock readings.\<close>

fun polls :: "real list \<Rightarrow> IntervalCheck \<Rightarrow> bool list" where
  "polls [] g = []"
| "polls (now # nows) g = fst (should_run now g) # polls nows (snd (should_run now g))"

section \<open>\<^verbatim>\<open>get_ip_address\<close>\<close>

text \<open>
  The function is Python 2 code: the interface name is a byte string, as is the buffer
  that \<^verbatim>\<open>ioctl\<close> returns. A \<open>char\<close> is one byte. The two system calls are parameters:
  \<open>sock\<close> is the outcome of \<^verbatim>\<open>socket.socket\<close> (a file descriptor or an exception) and
  \<open>ioctl\<close> maps descriptor, request number and argument buffer to the returned buffer or
  an exception.
\<close>

datatype exn = SocketError | IOError | PackedLengthError

text \<open>\<^verbatim>\<open>struct.pack('256s', s)\<close>: cut to 256 bytes, filled up with zero bytes.\<close>

definition pack_256s :: "string \<Rightarrow> string" where
  "pack_256s s = take 256 s @ replicate (256 - length s) (CHR 0x00)"

text \<open>Decimal digits of a number, as \<^verbatim>\<open>inet_ntoa\<close> prints each byte.\<close>

fun decimal :: "nat \<Rightarrow> string" where
  "decimal n =
     (if n < 10 then [''0123456789'' ! n] else decimal (n div 10) @ [''0123456789'' ! (n mod 10)])"

declare decimal.simps [simp del]

text \<open>\<^verbatim>\<open>socket.inet_ntoa\<close>: exactly four bytes, printed as a dotted quad; any other length raises.\<close>

definition inet_ntoa :: "string \<Rightarrow> exn + string" where
  "inet_ntoa packed =
     (case packed of
        [a, b, c, d] \<Rightarrow>
          Inr (decimal (of_char a) @ ''.'' @ decimal (of_char b) @ ''.''
               @ decimal (of_char c) @ ''.'' @ decimal (of_char d))
      | _ \<Rightarrow> Inl PackedLengthError)"

text \<open>The body of the \<^verbatim>\<open>try\<close> block; the slice \<^verbatim>\<open>[20:24]\<close> never raises.\<close>

definition get_ip_address_try ::
  "(exn + nat) \<Rightarrow> (nat \<Rightarrow> nat \<Rightarrow> string \<Rightarrow> exn + string) \<Rightarrow> string \<Rightarrow> exn + string" where
  "get_ip_address_try sock ioctl ifname =
     (case sock of
        Inl e \<Rightarrow> Inl e
      | Inr s \<Rightarrow>
          (case ioctl s 0x8915 (pack_256s (take 15 ifname)) of
             Inl e \<Rightarrow> Inl e
           | Inr buf \<Rightarrow> inet_ntoa (drop 20 (take 24 buf))))"

text \<open>The whole function: the bare \<^verbatim>\<open>except\<close> turns every exception into the placeholder.\<close>

definition get_ip_address ::
  "(exn + nat) \<Rightarrow> (nat \<Rightarrow> nat \<Rightarrow> string \<Rightarrow> exn + string) \<Rightarrow> string \<Rightarrow> exn + string" where
  "get_ip_address sock ioctl ifname =
     (case get_ip_address_try sock ioctl ifname of
        Inl e \<Rightarrow> Inr ''--.--.--''
      | Inr ip \<Rightarrow> Inr ip)"

text \<open>
  An example of a kernel's answer, used to run the function: the request \<^verbatim>\<open>SIOCGIFADDR\<close>
  for the interface \<^verbatim>\<open>wlan0\<close> returns a 256-byte buffer whose bytes 20 to 23 hold the
  address 192.168.1.42; any other request fails.
\<close>

definition ifreq_wlan0 :: string where
  "ifreq_wlan0 =
     ''wlan0'' @ replicate 11 (CHR 0x00)
     @ [CHR 0x02, CHR 0x00, CHR 0x00, CHR 0x00, CHR 0xC0, CHR 0xA8, CHR 0x01, CHR 0x2A]
     @ replicate 232 (CHR 0x00)"

definition ioctl_wlan0 :: "nat \<Rightarrow> nat \<Rightarrow> string \<Rightarrow> exn + string" where
  "ioctl_wlan0 fd request arg =
     (if request = 0x8915 \<and> take 6 arg = ''wlan0'' @ [CHR 0x00] then Inr ifreq_wlan0
      else Inl IOError)"

section \<open>Properties of \<^verbatim>\<open>should_run\<close>\<close>

text \<open>
  Claim C1. For a gate with positive interval whose \<open>last_time\<close> is set, a poll that
  observes \<open>now\<close> returns false when the elapsed time \<open>now - last_time\<close> is at most
  the interval (equality included), and returns true when the elapsed time is strictly
  greater, in which case \<open>last_time\<close> becomes \<open>now\<close> itself.
\<close>

theorem should_run_throttle:
  assumes "0 < interval g" and "last_time g = Some t"
  shows "(now - t \<le> interval g \<longrightarrow> fst (should_run now g) = False)
       \<and> (now - t = interval g \<longrightarrow> fst (should_run now g) = False)
       \<and> (now - t > interval g \<longrightarrow> should_run now g = (True, g\<lparr>last_time := Some now\<rparr>))"
  using assms by (simp add: should_run_def)

theorem should_run_throttle_witness:
  "(0::real) < interval \<lparr>interval = 1, last_time = Some 0\<rparr>
   \<and> last_time \<lparr>interval = 1, last_time = Some 0\<rparr> = Some 0
   \<and> fst (should_run (1/2) \<lparr>interval = 1, last_time = Some 0\<rparr>) = False
   \<and> fst (should_run 1 \<lparr>interval = 1, last_time = Some 0\<rparr>) = False
   \<and> should_run (21/20) \<lparr>interval = 1, last_time = Some 0\<rparr>
       = (True, \<lparr>interval = 1, last_time = Some (21/20)\<rparr>)"
  using should_run_throttle [of "\<lparr>interval = 1, last_time = Some 0\<rparr>" 0 "1/2"]
        should_run_throttle [of "\<lparr>interval = 1, last_time = Some 0\<rparr>" 0 1]
        should_run_throttle [of "\<lparr>interval = 1, last_time = Some 0\<rparr>" 0 "21/20"]
  by simp

text \<open>
  Claim C2. On a freshly constructed gate with a positive interval, the first
  \<^verbatim>\<open>should_run\<close> returns true and sets \<open>last_time\<close> to the observed \<open>now\<close>; the first
  \<^verbatim>\<open>sleep\<close> sets \<open>last_time\<close> to the observed \<open>now\<close> and returns without a call of
  \<^verbatim>\<open>time_sleep\<close>: the log of suspensions is as it was.
\<close>

theorem first_call_permits:
  assumes "0 < T"
  shows "should_run now (IntervalCheck_init T) = (True, \<lparr>interval = T, last_time = Some now\<rparr>)
       \<and> sleep now (IntervalCheck_init T, slept) = Inr (\<lparr>interval = T, last_time = Some now\<rparr>, slept)"
  by (simp add: should_run_def sleep_def IntervalCheck_init_def)

theorem first_call_permits_witness:
  "(0::real) < 2
   \<and> should_run 7 (IntervalCheck_init 2) = (True, \<lparr>interval = 2, last_time = Some 7\<rparr>)
   \<and> sleep 7 (IntervalCheck_init 2, []) = Inr (\<lparr>interval = 2, last_time = Some 7\<rparr>, [])"
  using first_call_permits [of 2 7 "[]"] by simp

text \<open>
  Claim C5. When \<^verbatim>\<open>should_run\<close> does not permit (\<open>last_time\<close> set and the elapsed time at
  most the interval), it returns false and the gate is exactly as before: \<open>last_time\<close>
  and \<open>interval\<close> keep their values.
\<close>

theorem should_run_refusal_frame:
  assumes "last_time g = Some t" and "now - t \<le> interval g"
  shows "should_run now g = (False, g)"
  using assms by (simp add: should_run_def)

theorem should_run_refusal_frame_witness:
  "last_time \<lparr>interval = 1, last_time = Some 3\<rparr> = Some 3
   \<and> (4::real) - 3 \<le> interval \<lparr>interval = 1, last_time = Some 3\<rparr>
   \<and> should_run 4 \<lparr>interval = 1, last_time = Some 3\<rparr> = (False, \<lparr>interval = 1, last_time = Some 3\<rparr>)"
  using should_run_refusal_frame [of "\<lparr>interval = 1, last_time = Some 3\<rparr>" 3 4] by simp

section \<open>Properties of \<^verbatim>\<open>sleep\<close>\<close>

text \<open>
  Claim C3. When \<^verbatim>\<open>sleep\<close> takes the branch of the gate that is not yet open
  (\<open>last_time\<close> set and the elapsed time at most the interval), it suspends once, for
  exactly \<open>remaining = interval - (now - last_time)\<close>, and then stores \<open>now + remaining\<close>
  in \<open>last_time\<close>. That value is the old \<open>last_time\<close> plus the interval: it is computed
  from the reading taken before the suspension, and no clock reading after the wake-up
  enters the method.
\<close>

theorem sleep_waits_remaining:
  assumes "last_time g = Some t" and "now - t \<le> interval g"
  shows "sleep now (g, slept)
           = Inr (g\<lparr>last_time := Some (now + (interval g - (now - t)))\<rparr>,
                  slept @ [interval g - (now - t)])
       \<and> now + (interval g - (now - t)) = t + interval g"
  using assms by (simp add: sleep_def time_sleep_def)

theorem sleep_waits_remaining_witness:
  "last_time \<lparr>interval = 2, last_time = Some 10\<rparr> = Some 10
   \<and> (21/2::real) - 10 \<le> interval \<lparr>interval = 2, last_time = Some 10\<rparr>
   \<and> sleep (21/2) (\<lparr>interval = 2, last_time = Some 10\<rparr>, [])
       = Inr (\<lparr>interval = 2, last_time = Some 12\<rparr>, [3/2])"
  using sleep_waits_remaining [of "\<lparr>interval = 2, last_time = Some 10\<rparr>" 10 "21/2" "[]"]
  by simp

text \<open>
  Claim C4. When \<open>last_time\<close> is set and the elapsed time is strictly greater than the
  interval, \<^verbatim>\<open>sleep\<close> returns at once: no suspension, and the gate is exactly as before,
  so the next call of either method sees the old \<open>last_time\<close>. \<^verbatim>\<open>should_run\<close> at the
  same reading permits and stores \<open>now\<close> instead.
\<close>

theorem sleep_open_gate_frame:
  assumes "last_time g = Some t" and "now - t > interval g"
  shows "sleep now (g, slept) = Inr (g, slept)
       \<and> (case sleep now (g, slept) of
            Inl e \<Rightarrow> False
          | Inr s' \<Rightarrow> should_run now' (fst s') = should_run now' g
                     \<and> sleep now' s' = sleep now' (g, slept))
       \<and> should_run now g = (True, g\<lparr>last_time := Some now\<rparr>)"
  using assms by (simp add: sleep_def should_run_def)

theorem sleep_open_gate_frame_witness:
  "last_time \<lparr>interval = 2, last_time = Some 10\<rparr> = Some 10
   \<and> (13::real) - 10 > interval \<lparr>interval = 2, last_time = Some 10\<rparr>
   \<and> sleep 13 (\<lparr>interval = 2, last_time = Some 10\<rparr>, [5]) = Inr (\<lparr>interval = 2, last_time = Some 10\<rparr>, [5])
   \<and> should_run 13 \<lparr>interval = 2, last_time = Some 10\<rparr> = (True, \<lparr>interval = 2, last_time = Some 13\<rparr>)"
  using sleep_open_gate_frame [of "\<lparr>interval = 2, last_time = Some 10\<rparr>" 10 13 "[5]" 14]
  by simp

text \<open>
  Claim C7. Neither method has an error condition: every call returns. In the branch of
  \<^verbatim>\<open>sleep\<close> that suspends, the duration \<open>interval - (now - last_time)\<close> is not negative,
  because the branch is only reached when the elapsed time is at most the interval, so
  \<^verbatim>\<open>time_sleep\<close> accepts it.
\<close>

theorem sleep_duration_nonnegative:
  "(\<exists>s'. step (c, now) (g, slept) = Inr s')
   \<and> (last_time g = Some t \<and> \<not> now - t > interval g \<longrightarrow>
        0 \<le> interval g - (now - t)
      \<and> time_sleep (interval g - (now - t)) slept = Inr (slept @ [interval g - (now - t)])
      \<and> (\<exists>g'. sleep now (g, slept) = Inr (g', slept @ [interval g - (now - t)])))"
proof -
  have "\<exists>s'. step (c, now) (g, slept) = Inr s'"
    by (cases c) (simp_all add: sleep_def time_sleep_def Let_def split: option.split)
  then show ?thesis
    by (simp add: sleep_def time_sleep_def)
qed

theorem sleep_duration_nonnegative_witness:
  "step (Sleep, 4) (\<lparr>interval = 3, last_time = Some 2\<rparr>, [])
     = Inr (\<lparr>interval = 3, last_time = Some 5\<rparr>, [1])
   \<and> last_time \<lparr>interval = 3, last_time = Some 2\<rparr> = Some 2
   \<and> \<not> (4::real) - 2 > interval \<lparr>interval = 3, last_time = Some 2\<rparr>
   \<and> (0::real) \<le> interval \<lparr>interval = 3, last_time = Some 2\<rparr> - (4 - 2)
   \<and> time_sleep 1 [] = Inr [1]"
  using sleep_duration_nonnegative [of Sleep 4 "\<lparr>interval = 3, last_time = Some 2\<rparr>" "[]" 2]
  by (simp add: sleep_def time_sleep_def)

text \<open>
  Claim C8. With a positive interval and \<open>last_time\<close> set, a clock that stepped backward
  (negative elapsed time) makes \<^verbatim>\<open>should_run\<close> return false and leave the gate alone,
  and makes \<^verbatim>\<open>sleep\<close> suspend for \<open>interval - (now - last_time)\<close>, which is longer than
  the interval and so not negative. Both calls return, the interval is kept and
  \<open>last_time\<close> stays set.
\<close>

theorem backward_clock_safe:
  assumes "0 < interval g" and "last_time g = Some t" and "now - t < 0"
  shows "should_run now g = (False, g)
       \<and> sleep now (g, slept)
           = Inr (g\<lparr>last_time := Some (now + (interval g - (now - t)))\<rparr>,
                  slept @ [interval g - (now - t)])
       \<and> interval g < interval g - (now - t)
       \<and> 0 \<le> interval g - (now - t)"
  using assms by (simp add: should_run_def sleep_def time_sleep_def)

theorem backward_clock_safe_witness:
  "(0::real) < interval \<lparr>interval = 2, last_time = Some 10\<rparr>
   \<and> last_time \<lparr>interval = 2, last_time = Some 10\<rparr> = Some 10
   \<and> (7::real) - 10 < 0
   \<and> should_run 7 \<lparr>interval = 2, last_time = Some 10\<rparr> = (False, \<lparr>interval = 2, last_time = Some 10\<rparr>)
   \<and> sleep 7 (\<lparr>interval = 2, last_time = Some 10\<rparr>, [])
       = Inr (\<lparr>interval = 2, last_time = Some 12\<rparr>, [5])"
  using backward_clock_safe [of "\<lparr>interval = 2, last_time = Some 10\<rparr>" 10 7 "[]"]
  by simp

section \<open>Sequences of calls\<close>

lemma step_total: "\<exists>s'. step c s = Inr s'"
proof (cases c; cases s)
  fix m now g slept
  assume c: "c = (m, now)" and s: "s = (g, slept)"
  show ?thesis
  proof (cases m)
    case ShouldRun
    with c s show ?thesis by simp
  next
    case Sleep
    with c s show ?thesis
      by (simp add: sleep_def time_sleep_def Let_def split: option.split)
  qed
qed

lemma step_interval: "step c s = Inr s' \<Longrightarrow> interval (fst s') = interval (fst s)"
proof (cases c; cases s)
  fix m now g slept
  assume r: "step c s = Inr s'" and c: "c = (m, now)" and s: "s = (g, slept)"
  show ?thesis
  proof (cases m)
    case ShouldRun
    with r c s show ?thesis
      by (auto simp: should_run_def split: option.splits if_splits)
  next
    case Sleep
    with r c s show ?thesis
      by (auto simp: sleep_def time_sleep_def Let_def split: option.splits if_splits)
  qed
qed

lemma step_last_le:
  assumes "0 < interval (fst s)" and "step c s = Inr s'"
  shows "last_le (last_time (fst s)) (last_time (fst s'))"
proof (cases c; cases s)
  fix m now g slept
  assume c: "c = (m, now)" and s: "s = (g, slept)"
  show ?thesis
  proof (cases m)
    case ShouldRun
    with assms c s show ?thesis
      by (auto simp: should_run_def split: option.splits if_splits)
  next
    case Sleep
    with assms c s show ?thesis
      by (auto simp: sleep_def time_sleep_def Let_def split: option.splits if_splits)
  qed
qed

lemma last_le_refl: "last_le a a"
  by (cases a) simp_all

lemma last_le_trans: "last_le a b \<Longrightarrow> last_le b c \<Longrightarrow> last_le a c"
  by (cases a; cases b; cases c) simp_all

lemma states_above_start:
  "0 < interval (fst s) \<Longrightarrow> x \<in> set (states cs s) \<Longrightarrow>
     last_le (last_time (fst s)) (last_time (fst x))"
proof (induction cs arbitrary: s)
  case Nil
  then show ?case by (simp add: last_le_refl)
next
  case (Cons c cs)
  obtain s' where s': "step c s = Inr s'" using step_total by blast
  have pos: "0 < interval (fst s')" using Cons.prems(1) step_interval [OF s'] by simp
  from Cons.prems(2) s' have "x = s \<or> x \<in> set (states cs s')" by simp
  then show ?case
  proof
    assume "x = s" then show ?thesis by (simp add: last_le_refl)
  next
    assume "x \<in> set (states cs s')"
    then have "last_le (last_time (fst s')) (last_time (fst x))"
      using Cons.IH [OF pos] by simp
    with step_last_le [OF Cons.prems(1) s'] show ?thesis by (rule last_le_trans)
  qed
qed

lemma states_monotone:
  "0 < interval (fst s) \<Longrightarrow> sorted_wrt last_le (map (\<lambda>x. last_time (fst x)) (states cs s))"
proof (induction cs arbitrary: s)
  case Nil
  then show ?case by simp
next
  case (Cons c cs)
  obtain s' where s': "step c s = Inr s'" using step_total by blast
  have pos: "0 < interval (fst s')" using Cons.prems step_interval [OF s'] by simp
  have tail: "sorted_wrt last_le (map (\<lambda>x. last_time (fst x)) (states cs s'))"
    using Cons.IH [OF pos] .
  have head: "\<forall>x \<in> set (states cs s'). last_le (last_time (fst s)) (last_time (fst x))"
  proof
    fix x assume "x \<in> set (states cs s')"
    then have "last_le (last_time (fst s')) (last_time (fst x))"
      using states_above_start [OF pos] by simp
    with step_last_le [OF Cons.prems s'] show "last_le (last_time (fst s)) (last_time (fst x))"
      by (rule last_le_trans)
  qed
  from s' tail head show ?case by simp
qed

lemma states_length: "length (states cs s) = Suc (length cs)"
proof (induction cs arbitrary: s)
  case Nil
  then show ?case by simp
next
  case (Cons c cs)
  obtain s' where s': "step c s = Inr s'" using step_total by blast
  with Cons.IH [of s'] show ?case by simp
qed

lemma polls_all_permit:
  "sorted_wrt (\<lambda>a b. b - a > interval g) nows \<Longrightarrow>
   (\<forall>t. last_time g = Some t \<longrightarrow> (\<forall>n \<in> set nows. n - t > interval g)) \<Longrightarrow>
   polls nows g = replicate (length nows) True"
proof (induction nows arbitrary: g)
  case Nil
  then show ?case by simp
next
  case (Cons now nows)
  have permit: "should_run now g = (True, g\<lparr>last_time := Some now\<rparr>)"
    using Cons.prems(2) by (simp add: should_run_def split: option.split)
  have "polls nows (g\<lparr>last_time := Some now\<rparr>) = replicate (length nows) True"
    using Cons.prems(1) by (intro Cons.IH) simp_all
  with permit show ?case by simp
qed


text \<open>
  Claim C9. With a positive interval and clock readings that never decrease from one
  call to the next, every sequence of \<^verbatim>\<open>should_run\<close> and \<^verbatim>\<open>sleep\<close> calls runs to its end,
  and the values of \<open>last_time\<close> along it never decrease: each call leaves \<open>last_time\<close> as
  it was or replaces it by a value that is at least the previous one.
\<close>

theorem last_time_monotone:
  assumes "0 < interval g" and "sorted (map snd cs)"
  shows "length (states cs (g, slept)) = Suc (length cs)
       \<and> sorted_wrt last_le (map (\<lambda>x. last_time (fst x)) (states cs (g, slept)))"
  using assms(1) by (simp add: states_length states_monotone)

theorem last_time_monotone_witness:
  "(0::real) < interval (IntervalCheck_init 2)
   \<and> sorted (map snd [(Sleep, 0::real), (Sleep, 0), (ShouldRun, 1), (ShouldRun, 5), (Sleep, 6)])
   \<and> map (\<lambda>x. last_time (fst x))
        (states [(Sleep, 0), (Sleep, 0), (ShouldRun, 1), (ShouldRun, 5), (Sleep, 6)]
           (IntervalCheck_init 2, []))
       = [None, Some 0, Some 2, Some 2, Some 5, Some 7]
   \<and> sorted_wrt last_le [None, Some 0, Some 2, Some 2, Some 5, Some (7::real)]"
  using last_time_monotone
          [of "IntervalCheck_init 2"
              "[(Sleep, 0), (Sleep, 0), (ShouldRun, 1), (ShouldRun, 5), (Sleep, 6)]" "[]"]
  by (simp add: IntervalCheck_init_def sleep_def should_run_def time_sleep_def)

text \<open>
  Claim C6, as stated, fails: with interval 0 a second poll at the same clock reading
  (elapsed time 0, which is not negative) returns false, since \<open>0 > 0\<close> does not hold.
\<close>

theorem zero_interval_counterexample:
  "(0::real) \<le> 5 - 5 \<and> polls [5, 5] (IntervalCheck_init 0) = [True, False]"
  by (simp add: should_run_def IntervalCheck_init_def)

text \<open>
  Claim C6, amended. On a gate constructed with a negative interval every poll returns
  true as long as the clock readings never decrease (every elapsed time is at least 0);
  on a gate constructed with interval 0 every poll returns true as long as the clock
  readings strictly increase (every elapsed time is greater than 0). With interval 0 a
  poll at elapsed time exactly 0 returns false.
\<close>

theorem degenerate_interval_permits:
  "(T < 0 \<and> sorted nows \<longrightarrow> polls nows (IntervalCheck_init T) = replicate (length nows) True)
   \<and> (T = 0 \<and> sorted_wrt (<) nows \<longrightarrow>
        polls nows (IntervalCheck_init T) = replicate (length nows) True)
   \<and> (T = 0 \<longrightarrow> polls [now, now] (IntervalCheck_init T) = [True, False])"
proof (intro conjI impI)
  assume a: "T < 0 \<and> sorted nows"
  then have "sorted_wrt (\<lambda>a b. b - a > T) nows"
    by (auto intro: sorted_wrt_mono_rel [where P = "(\<le>)"])
  then show "polls nows (IntervalCheck_init T) = replicate (length nows) True"
    by (intro polls_all_permit) (simp_all add: IntervalCheck_init_def)
next
  assume a: "T = 0 \<and> sorted_wrt (<) nows"
  then have "sorted_wrt (\<lambda>a b. b - a > T) nows"
    by (auto intro: sorted_wrt_mono_rel [where P = "(<)"])
  then show "polls nows (IntervalCheck_init T) = replicate (length nows) True"
    by (intro polls_all_permit) (simp_all add: IntervalCheck_init_def)
next
  assume "T = 0"
  then show "polls [now, now] (IntervalCheck_init T) = [True, False]"
    by (simp add: should_run_def IntervalCheck_init_def)
qed

theorem degenerate_interval_permits_witness:
  "(-1::real) < 0 \<and> sorted [5, 5, 6::real]
   \<and> polls [5, 5, 6] (IntervalCheck_init (-1)) = [True, True, True]
   \<and> sorted_wrt (<) [5, 6, 8::real]
   \<and> polls [5, 6, 8] (IntervalCheck_init 0) = [True, True, True]
   \<and> polls [9, 9] (IntervalCheck_init 0) = [True, False]"
  using degenerate_interval_permits [of "-1" "[5, 5, 6]" 9]
        degenerate_interval_permits [of 0 "[5, 6, 8]" 9]
  by (simp add: numeral_3_eq_3)

section \<open>Properties of \<^verbatim>\<open>get_ip_address\<close>\<close>

lemma inet_ntoa_wrong_length: "length packed \<noteq> 4 \<Longrightarrow> inet_ntoa packed = Inl PackedLengthError"
  by (auto simp: inet_ntoa_def split: list.split)

lemma slice_20_24_short: "length buf < 24 \<Longrightarrow> length (drop 20 (take 24 buf)) \<noteq> 4"
  by simp

lemma slice_20_24_full:
  assumes "24 \<le> length buf"
  shows "drop 20 (take 24 buf) = [buf ! 20, buf ! 21, buf ! 22, buf ! 23]"
proof (rule nth_equalityI)
  show "length (drop 20 (take 24 buf)) = length [buf ! 20, buf ! 21, buf ! 22, buf ! 23]"
    using assms by simp
next
  fix i assume "i < length (drop 20 (take 24 buf))"
  then have "i < 4" by simp
  then consider "i = 0" | "i = 1" | "i = 2" | "i = 3" by linarith
  then show "drop 20 (take 24 buf) ! i = [buf ! 20, buf ! 21, buf ! 22, buf ! 23] ! i"
    using assms by cases simp_all
qed

lemma ioctl_wlan0_answers:
  "ioctl_wlan0 3 0x8915 (pack_256s (take 15 ''wlan0'')) = Inr ifreq_wlan0"
  by (simp add: ioctl_wlan0_def pack_256s_def)

lemma ioctl_wlan0_fails:
  "ioctl_wlan0 3 0x8915 (pack_256s (take 15 ''eth0'')) = Inl IOError"
  by (simp add: ioctl_wlan0_def pack_256s_def)

lemma ifreq_wlan0_length: "24 \<le> length ifreq_wlan0"
  by (simp add: ifreq_wlan0_def)

lemma ifreq_wlan0_address:
  "decimal (of_char (ifreq_wlan0 ! 20)) @ ''.'' @ decimal (of_char (ifreq_wlan0 ! 21)) @ ''.''
     @ decimal (of_char (ifreq_wlan0 ! 22)) @ ''.'' @ decimal (of_char (ifreq_wlan0 ! 23))
   = ''192.168.1.42''"
  by (simp add: ifreq_wlan0_def nth_append decimal.simps)

text \<open>
  Claim C10. Whatever the interface name and whatever the outcomes of the socket and
  ioctl calls, \<^verbatim>\<open>get_ip_address\<close> returns and raises nothing. When the socket call fails,
  the ioctl fails, or the returned buffer has no four bytes at positions 20 to 23, the
  result is the placeholder \<^verbatim>\<open>--.--.--\<close>; otherwise it is those four bytes printed as a
  dotted quad, the address of the interface.
\<close>

theorem get_ip_address_never_raises:
  "(\<exists>ip. get_ip_address sock ioctl ifname = Inr ip)
   \<and> (sock = Inl e \<longrightarrow> get_ip_address sock ioctl ifname = Inr ''--.--.--'')
   \<and> (sock = Inr fd \<and> ioctl fd 0x8915 (pack_256s (take 15 ifname)) = Inl e \<longrightarrow>
        get_ip_address sock ioctl ifname = Inr ''--.--.--'')
   \<and> (sock = Inr fd \<and> ioctl fd 0x8915 (pack_256s (take 15 ifname)) = Inr buf \<and> length buf < 24 \<longrightarrow>
        get_ip_address sock ioctl ifname = Inr ''--.--.--'')
   \<and> (sock = Inr fd \<and> ioctl fd 0x8915 (pack_256s (take 15 ifname)) = Inr buf \<and> 24 \<le> length buf \<longrightarrow>
        get_ip_address sock ioctl ifname
          = Inr (decimal (of_char (buf ! 20)) @ ''.'' @ decimal (of_char (buf ! 21)) @ ''.''
                 @ decimal (of_char (buf ! 22)) @ ''.'' @ decimal (of_char (buf ! 23))))"
proof (intro conjI impI)
  show "\<exists>ip. get_ip_address sock ioctl ifname = Inr ip"
    by (simp add: get_ip_address_def split: sum.split)
next
  assume "sock = Inl e"
  then show "get_ip_address sock ioctl ifname = Inr ''--.--.--''"
    by (simp add: get_ip_address_def get_ip_address_try_def)
next
  assume "sock = Inr fd \<and> ioctl fd 0x8915 (pack_256s (take 15 ifname)) = Inl e"
  then show "get_ip_address sock ioctl ifname = Inr ''--.--.--''"
    by (simp add: get_ip_address_def get_ip_address_try_def)
next
  assume a: "sock = Inr fd \<and> ioctl fd 0x8915 (pack_256s (take 15 ifname)) = Inr buf \<and> length buf < 24"
  then have "inet_ntoa (drop 20 (take 24 buf)) = Inl PackedLengthError"
    by (intro inet_ntoa_wrong_length slice_20_24_short) simp
  with a show "get_ip_address sock ioctl ifname = Inr ''--.--.--''"
    by (simp add: get_ip_address_def get_ip_address_try_def)
next
  assume a: "sock = Inr fd \<and> ioctl fd 0x8915 (pack_256s (take 15 ifname)) = Inr buf \<and> 24 \<le> length buf"
  then have "drop 20 (take 24 buf) = [buf ! 20, buf ! 21, buf ! 22, buf ! 23]"
    by (intro slice_20_24_full) simp
  with a show "get_ip_address sock ioctl ifname
          = Inr (decimal (of_char (buf ! 20)) @ ''.'' @ decimal (of_char (buf ! 21)) @ ''.''
                 @ decimal (of_char (buf ! 22)) @ ''.'' @ decimal (of_char (buf ! 23)))"
    by (simp add: get_ip_address_def get_ip_address_try_def inet_ntoa_def)
qed

theorem get_ip_address_never_raises_witness:
  "ioctl_wlan0 3 0x8915 (pack_256s (take 15 ''wlan0'')) = Inr ifreq_wlan0
   \<and> 24 \<le> length ifreq_wlan0
   \<and> get_ip_address (Inr 3) ioctl_wlan0 ''wlan0'' = Inr ''192.168.1.42''
   \<and> ioctl_wlan0 3 0x8915 (pack_256s (take 15 ''eth0'')) = Inl IOError
   \<and> get_ip_address (Inr 3) ioctl_wlan0 ''eth0'' = Inr ''--.--.--''
   \<and> get_ip_address (Inl SocketError) ioctl_wlan0 ''wlan0'' = Inr ''--.--.--''"
  using get_ip_address_never_raises [of "Inr 3" ioctl_wlan0 "''wlan0''" IOError 3 ifreq_wlan0]
        get_ip_address_never_raises [of "Inr 3" ioctl_wlan0 "''eth0''" IOError 3 ifreq_wlan0]
        get_ip_address_never_raises
          [of "Inl SocketError" ioctl_wlan0 "''wlan0''" SocketError 3 ifreq_wlan0]
        ioctl_wlan0_answers ioctl_wlan0_fails ifreq_wlan0_length ifreq_wlan0_address
  by simp

end
